theory Spec2Isabelle
  imports Complex_Main
begin

section \<open>Values and exceptions\<close>

text \<open>
  The alert is the JSON body of the request, a Python dict from field names to JSON
  values. A Python \<open>bool\<close> is an \<open>int\<close> (\<open>isinstance(True, int)\<close> holds), so
  \<open>JBool\<close> counts as a number below. Floats are read as the real number they denote
  (NaN and the infinities are outside the model), and the time of day \<open>time.time()\<close>
  is a real number of seconds.
\<close>

datatype jval =
    JNull
  | JBool bool
  | JInt int
  | JFloat real
  | JStr string
  | JArr "jval list"
  | JObj "(string \<times> jval) list"

type_synonym jdict = "(string \<times> jval) list"

datatype exn =
    TypeError
  | KeyError string
  | ProviderError string

text \<open>\<open>d.get(k, default)\<close> and \<open>d[k]\<close>.\<close>

definition dict_get :: "('k \<times> 'v) list \<Rightarrow> 'k \<Rightarrow> 'v \<Rightarrow> 'v" where
  "dict_get d k dflt = (case map_of d k of None \<Rightarrow> dflt | Some v \<Rightarrow> v)"

definition dict_item :: "jdict \<Rightarrow> string \<Rightarrow> exn + jval" where
  "dict_item d k = (case map_of d k of None \<Rightarrow> Inl (KeyError k) | Some v \<Rightarrow> Inr v)"

text \<open>\<open>isinstance(v, (int, float))\<close>, with the number when it holds.\<close>

fun num_val :: "jval \<Rightarrow> real option" where
  "num_val (JBool b) = Some (if b then 1 else 0)"
| "num_val (JInt i) = Some (real_of_int i)"
| "num_val (JFloat r) = Some r"
| "num_val _ = None"

text \<open>
  \<open>str.strip()\<close> on characters read as code points below 256: the white space of
  Python there is 9 to 13, 28 to 32, 133 and 160.
\<close>

definition est_espace :: "char \<Rightarrow> bool" where
  "est_espace c = ((of_char c :: nat) \<in> {9, 10, 11, 12, 13, 28, 29, 30, 31, 32, 133, 160})"

definition strip :: "string \<Rightarrow> string" where
  "strip s = rev (dropWhile est_espace (rev (dropWhile est_espace s)))"

section \<open>validator.py\<close>

subsection \<open>RULES\<close>

definition cpu_min :: real where "cpu_min = 0"
definition cpu_max :: real where "cpu_max = 100"
definition ram_min :: real where "ram_min = 0"
definition ram_max :: real where "ram_max = 100"
definition max_age_seconds :: real where "max_age_seconds = 60"

definition required_fields :: "string list" where
  "required_fields = [''source'', ''token'', ''cpu'', ''ram'', ''timestamp'']"

subsection \<open>valider_alerte\<close>

text \<open>
  The reason of a rejection. The source returns a message; each constructor stands for
  one message, with the values the message interpolates:
  \<^item> \<open>DonneesVides\<close>: "Donnees vides";
  \<^item> \<open>ChampManquant c\<close>: "Champ obligatoire manquant : c";
  \<^item> \<open>TokenInvalide\<close>: "Token d'authentification invalide";
  \<^item> \<open>CpuPasNombre\<close>: "La valeur CPU doit etre un nombre";
  \<^item> \<open>CpuHorsLimites v\<close>: "CPU hors limites : v% (attendu entre 0 et 100)";
  \<^item> \<open>RamPasNombre\<close>, \<open>RamHorsLimites v\<close>: the same for RAM;
  \<^item> \<open>TropAncienne age\<close>: "Alerte trop ancienne : age secondes";
  \<^item> \<open>TimestampFutur\<close>: "Timestamp invalide : date dans le futur";
  \<^item> \<open>SourceNonIdentifiee\<close>: "Source non identifiee";
  \<^item> \<open>OK\<close>: "OK", returned with \<open>True\<close>.
\<close>

datatype raison =
    OK
  | DonneesVides
  | ChampManquant string
  | TokenInvalide
  | CpuPasNombre
  | CpuHorsLimites real
  | RamPasNombre
  | RamHorsLimites real
  | TropAncienne real
  | TimestampFutur
  | SourceNonIdentifiee

text \<open>
  \<open>time.time() - timestamp\<close>: a float minus a JSON value. Python subtracts a number
  (a bool is one) and raises \<open>TypeError\<close> for a string, \<open>None\<close>, a list or a dict.
\<close>

definition age_de :: "real \<Rightarrow> jval \<Rightarrow> exn + real" where
  "age_de now ts = (case num_val ts of None \<Rightarrow> Inl TypeError | Some t \<Rightarrow> Inr (now - t))"

text \<open>
  \<open>valider_alerte secret now data\<close>: \<open>secret\<close> is \<open>SECRET_TOKEN\<close>, \<open>now\<close> the value
  \<open>time.time()\<close> returns at step 6. \<open>Inl e\<close> is the exception \<open>e\<close> leaving the function,
  \<open>Inr (b, r)\<close> the returned pair.
\<close>

definition valider_alerte :: "string \<Rightarrow> real \<Rightarrow> jdict \<Rightarrow> exn + (bool \<times> raison)" where
  "valider_alerte secret now data =
    (if data = [] then Inr (False, DonneesVides)
     else case find (\<lambda>champ. map_of data champ = None) required_fields of
       Some champ \<Rightarrow> Inr (False, ChampManquant champ)
     | None \<Rightarrow>
    (case dict_item data ''token'' of Inl e \<Rightarrow> Inl e | Inr token \<Rightarrow>
     if token \<noteq> JStr secret then Inr (False, TokenInvalide)
     else
    (case dict_item data ''cpu'' of Inl e \<Rightarrow> Inl e | Inr cpu \<Rightarrow>
    (case num_val cpu of None \<Rightarrow> Inr (False, CpuPasNombre) | Some c \<Rightarrow>
     if \<not> (cpu_min \<le> c \<and> c \<le> cpu_max) then Inr (False, CpuHorsLimites c)
     else
    (case dict_item data ''ram'' of Inl e \<Rightarrow> Inl e | Inr ram \<Rightarrow>
    (case num_val ram of None \<Rightarrow> Inr (False, RamPasNombre) | Some r \<Rightarrow>
     if \<not> (ram_min \<le> r \<and> r \<le> ram_max) then Inr (False, RamHorsLimites r)
     else
    (case dict_item data ''timestamp'' of Inl e \<Rightarrow> Inl e | Inr timestamp \<Rightarrow>
    (case age_de now timestamp of Inl e \<Rightarrow> Inl e | Inr age \<Rightarrow>
     if age > max_age_seconds then Inr (False, TropAncienne age)
     else if age < 0 then Inr (False, TimestampFutur)
     else
    (case dict_item data ''source'' of Inl e \<Rightarrow> Inl e | Inr source \<Rightarrow>
    (case source of
       JStr s \<Rightarrow> if length (strip s) = 0 then Inr (False, SourceNonIdentifiee)
                 else Inr (True, OK)
     | _ \<Rightarrow> Inr (False, SourceNonIdentifiee)))))))))))"

subsection \<open>determiner_action\<close>

type_synonym policies = "(string \<times> real) list"

definition determiner_action :: "real \<Rightarrow> policies \<Rightarrow> string" where
  "determiner_action cpu pol =
    (let scale_up_threshold = dict_get pol ''scale_up_threshold'' 80;
         scale_down_threshold = dict_get pol ''scale_down_threshold'' 20
     in if cpu > scale_up_threshold then ''scale_up''
        else if cpu < scale_down_threshold then ''scale_down''
        else ''none'')"

subsection \<open>determiner_nouveau_flavor\<close>

definition progression :: "(string \<times> (string \<times> string) list) list" where
  "progression =
    [(''scale_up'',
        [(''m1.small'', ''m1.medium''),
         (''m1.medium'', ''m1.large''),
         (''m1.large'', ''m1.large'')]),
     (''scale_down'',
        [(''m1.large'', ''m1.medium''),
         (''m1.medium'', ''m1.small''),
         (''m1.small'', ''m1.small'')])]"

definition determiner_nouveau_flavor :: "string \<Rightarrow> string \<Rightarrow> string" where
  "determiner_nouveau_flavor action flavor_actuel =
    (case map_of progression action of
       None \<Rightarrow> flavor_actuel
     | Some table \<Rightarrow> dict_get table flavor_actuel flavor_actuel)"

section \<open>heat_client.py\<close>

subsection \<open>State, provider and world\<close>

text \<open>The module's \<open>_state\<close> dict.\<close>

record hc_state =
  last_scaling_time :: real
  hc_current_flavor :: string
  vm_id :: "string option"
  stack_name :: string
  connected :: bool

text \<open>
  The Nova client \<open>_nova_client\<close> is an external collaborator. It is a parameter of the
  model: each operation either raises (\<open>Inl e\<close>, \<open>Some e\<close>) or answers.
  \<^item> \<open>servers_list name\<close>: the ids of the servers \<open>servers.list\<close> finds for the name;
  \<^item> \<open>flavors_list\<close>: the names of the flavors \<open>flavors.list()\<close> returns;
  \<^item> \<open>servers_get id\<close>: \<open>servers.get\<close>, which raises or returns the server object;
  \<^item> \<open>server_resize id flavor\<close>: \<open>serveur.resize\<close>;
  \<^item> \<open>server_status k\<close>: what the refresh number \<open>k\<close> (\<open>serveur.get()\<close> followed by
    \<open>serveur.status\<close>, counted from 0 over the life of the process) raises or reads;
  \<^item> \<open>server_confirm_resize id\<close>: \<open>serveur.confirm_resize\<close>.
\<close>

record nova =
  servers_list :: "string \<Rightarrow> exn + string list"
  flavors_list :: "exn + string list"
  servers_get :: "string \<Rightarrow> exn option"
  server_resize :: "string \<Rightarrow> string \<Rightarrow> exn option"
  server_status :: "nat \<Rightarrow> exn + string"
  server_confirm_resize :: "string \<Rightarrow> exn option"

text \<open>The calls made on the provider, in order.\<close>

datatype appel =
    ServersList string
  | FlavorsList
  | ServersGet string
  | ServerResize string string
  | ServerGet string
  | ConfirmResize string

text \<open>
  What lies outside the process: the clock \<open>time.time()\<close> reads, the calls made on
  the provider so far, and the number of status refreshes so far. On the model clock
  only \<open>time.sleep\<close> takes time.
\<close>

record monde =
  horloge :: real
  appels :: "appel list"
  sondages :: nat

definition sleep :: "real \<Rightarrow> monde \<Rightarrow> monde" where
  "sleep d w = w\<lparr>horloge := horloge w + d\<rparr>"

definition appeler :: "appel \<Rightarrow> monde \<Rightarrow> monde" where
  "appeler a w = w\<lparr>appels := appels w @ [a]\<rparr>"

text \<open>
  The dict the resize functions return. \<open>res_message\<close> stands for the message text:
  \<^item> \<open>MsgDeja f\<close>: already on flavor \<open>f\<close>;
  \<^item> \<open>MsgCooldown a n\<close>: cooldown active, resize \<open>a\<close> to \<open>n\<close> postponed;
  \<^item> \<open>MsgVMIntrouvable vm\<close>, \<open>MsgFlavorIntrouvable f\<close>: not found;
  \<^item> \<open>MsgResizeReussi vm a n\<close>, \<open>MsgSimulation vm a n\<close>: done, or done in simulation;
  \<^item> \<open>MsgErreur e\<close>: the exception \<open>e\<close> was caught.
\<close>

datatype msg =
    MsgDeja string
  | MsgCooldown string string
  | MsgVMIntrouvable string
  | MsgFlavorIntrouvable string
  | MsgResizeReussi string string string
  | MsgSimulation string string string
  | MsgErreur exn

record resultat =
  res_success :: bool
  res_message :: msg
  res_ancien_flavor :: string
  res_nouveau_flavor :: string
  res_action :: string

subsection \<open>recuperer_vm_id\<close>

definition recuperer_vm_id ::
  "nova option \<Rightarrow> string \<Rightarrow> hc_state \<times> monde \<Rightarrow> string option \<times> hc_state \<times> monde" where
  "recuperer_vm_id client vm_name sw =
    (case sw of (s, w) \<Rightarrow>
     if \<not> connected s \<or> client = None then (Some ''mock-vm-id-12345'', s, w)
     else
      (case client of
         None \<Rightarrow> (Some ''mock-vm-id-12345'', s, w)
       | Some nv \<Rightarrow>
          (let w1 = appeler (ServersList vm_name) w in
           case servers_list nv vm_name of
             Inl e \<Rightarrow> (None, s, w1)
           | Inr [] \<Rightarrow> (None, s, w1)
           | Inr (v # _) \<Rightarrow> (Some v, s\<lparr>vm_id := Some v\<rparr>, w1))))"

subsection \<open>cooldown_respecte\<close>

text \<open>\<open>cooldown\<close> is \<open>COOLDOWN_SECONDS\<close>, \<open>now\<close> the value of \<open>time.time()\<close>.\<close>

definition cooldown_respecte :: "int \<Rightarrow> real \<Rightarrow> hc_state \<Rightarrow> bool" where
  "cooldown_respecte cooldown now s =
    (let temps_ecoule = now - last_scaling_time s
     in if temps_ecoule < real_of_int cooldown then False else True)"

subsection \<open>_attendre_statut\<close>

text \<open>
  The loop of \<open>_attendre_statut\<close>, from its test on: \<open>debut\<close> is the time read on
  entry. The result is what the function returns (\<open>Inr\<close>) or the exception a refresh
  raised (\<open>Inl\<close>). Every turn that continues sleeps 5 seconds, so the loop ends.
\<close>

function attendre_boucle ::
  "nova \<Rightarrow> string \<Rightarrow> string \<Rightarrow> real \<Rightarrow> real \<Rightarrow> monde \<Rightarrow> (exn + bool) \<times> monde" where
  "attendre_boucle nv sid statut_cible timeout debut w =
    (if horloge w - debut < timeout then
       (let w1 = (appeler (ServerGet sid) w)\<lparr>sondages := Suc (sondages w)\<rparr> in
        case server_status nv (sondages w) of
          Inl e \<Rightarrow> (Inl e, w1)
        | Inr statut \<Rightarrow>
            if statut = statut_cible then (Inr True, w1)
            else if statut = ''ERROR'' then (Inr False, w1)
            else attendre_boucle nv sid statut_cible timeout debut (sleep 5 w1))
     else (Inr False, w))"
  by pat_completeness auto
termination
  by (relation "measure (\<lambda>(nv, sid, cible, timeout, debut, w).
        nat \<lceil>timeout - (horloge w - debut)\<rceil>)")
     (auto simp: sleep_def appeler_def, linarith)

declare attendre_boucle.simps [simp del]

definition attendre_statut ::
  "nova \<Rightarrow> string \<Rightarrow> string \<Rightarrow> real \<Rightarrow> monde \<Rightarrow> (exn + bool) \<times> monde" where
  "attendre_statut nv sid statut_cible timeout w =
     attendre_boucle nv sid statut_cible timeout (horloge w) w"

subsection \<open>_simuler_resize\<close>

definition simuler_resize ::
  "string \<Rightarrow> string \<Rightarrow> string \<Rightarrow> hc_state \<times> monde \<Rightarrow> resultat \<times> hc_state \<times> monde" where
  "simuler_resize vm_name ancien nouveau sw =
    (case sw of (s, w) \<Rightarrow>
     let w1 = sleep 1 w;
         s1 = s\<lparr>hc_current_flavor := nouveau, last_scaling_time := horloge w1\<rparr>
     in (\<lparr>res_success = True,
          res_message = MsgSimulation vm_name ancien nouveau,
          res_ancien_flavor = ancien,
          res_nouveau_flavor = nouveau,
          res_action = ''simulated''\<rparr>, s1, w1))"

subsection \<open>_resize_openstack\<close>

definition erreur_resize :: "msg \<Rightarrow> string \<Rightarrow> string \<Rightarrow> resultat" where
  "erreur_resize m ancien nouveau =
     \<lparr>res_success = False,
      res_message = m,
      res_ancien_flavor = ancien,
      res_nouveau_flavor = nouveau,
      res_action = ''error''\<rparr>"

text \<open>
  The body of the \<open>try\<close>. An exception raised by the provider is caught by the
  \<open>except\<close> clause, which returns the error dict: what the state was given before the
  exception stays. The value \<open>_attendre_statut\<close> returns is not read.
\<close>

definition resize_openstack ::
  "nova \<Rightarrow> string \<Rightarrow> string \<Rightarrow> string \<Rightarrow> hc_state \<times> monde \<Rightarrow> resultat \<times> hc_state \<times> monde" where
  "resize_openstack nv vm_name ancien nouveau sw =
    (case (case sw of (s, w) \<Rightarrow>
             if vm_id s = None then
               (case recuperer_vm_id (Some nv) vm_name (s, w) of
                  (r, s', w') \<Rightarrow> (s'\<lparr>vm_id := r\<rparr>, w'))
             else (s, w)) of
      (s1, w1) \<Rightarrow>
    (case vm_id s1 of
       None \<Rightarrow> (erreur_resize (MsgVMIntrouvable vm_name) ancien nouveau, s1, w1)
     | Some sid \<Rightarrow>
    (let w2 = appeler FlavorsList w1 in
     case flavors_list nv of
       Inl e \<Rightarrow> (erreur_resize (MsgErreur e) ancien nouveau, s1, w2)
     | Inr flavors \<Rightarrow>
    (case find (\<lambda>f. f = nouveau) flavors of
       None \<Rightarrow> (erreur_resize (MsgFlavorIntrouvable nouveau) ancien nouveau, s1, w2)
     | Some flavor_obj \<Rightarrow>
    (let w3 = appeler (ServersGet sid) w2 in
     case servers_get nv sid of
       Some e \<Rightarrow> (erreur_resize (MsgErreur e) ancien nouveau, s1, w3)
     | None \<Rightarrow>
    (let w4 = appeler (ServerResize sid flavor_obj) w3 in
     case server_resize nv sid flavor_obj of
       Some e \<Rightarrow> (erreur_resize (MsgErreur e) ancien nouveau, s1, w4)
     | None \<Rightarrow>
    (case attendre_statut nv sid ''VERIFY_RESIZE'' 120 w4 of
       (Inl e, w5) \<Rightarrow> (erreur_resize (MsgErreur e) ancien nouveau, s1, w5)
     | (Inr _, w5) \<Rightarrow>
    (let w6 = appeler (ConfirmResize sid) w5 in
     case server_confirm_resize nv sid of
       Some e \<Rightarrow> (erreur_resize (MsgErreur e) ancien nouveau, s1, w6)
     | None \<Rightarrow>
        (\<lparr>res_success = True,
          res_message = MsgResizeReussi vm_name ancien nouveau,
          res_ancien_flavor = ancien,
          res_nouveau_flavor = nouveau,
          res_action = ''resized''\<rparr>,
         s1\<lparr>hc_current_flavor := nouveau, last_scaling_time := horloge w6\<rparr>,
         w6)))))))))"

subsection \<open>effectuer_resize\<close>

text \<open>
  \<open>cooldown\<close> is \<open>COOLDOWN_SECONDS\<close> and \<open>client\<close> the module's \<open>_nova_client\<close>
  (\<open>None\<close> until a connection succeeds).
\<close>

definition effectuer_resize ::
  "int \<Rightarrow> nova option \<Rightarrow> string \<Rightarrow> string \<Rightarrow> hc_state \<times> monde \<Rightarrow> resultat \<times> hc_state \<times> monde" where
  "effectuer_resize cooldown client vm_name nouveau sw =
    (case sw of (s, w) \<Rightarrow>
     let ancien = hc_current_flavor s in
     if nouveau = ancien then
       (\<lparr>res_success = True,
         res_message = MsgDeja ancien,
         res_ancien_flavor = ancien,
         res_nouveau_flavor = nouveau,
         res_action = ''none''\<rparr>, s, w)
     else if \<not> cooldown_respecte cooldown (horloge w) s then
       (\<lparr>res_success = False,
         res_message = MsgCooldown ancien nouveau,
         res_ancien_flavor = ancien,
         res_nouveau_flavor = nouveau,
         res_action = ''cooldown''\<rparr>, s, w)
     else if \<not> connected s \<or> client = None then
       simuler_resize vm_name ancien nouveau (s, w)
     else
      (case client of
         None \<Rightarrow> simuler_resize vm_name ancien nouveau (s, w)
       | Some nv \<Rightarrow> resize_openstack nv vm_name ancien nouveau (s, w)))"

section \<open>adapter.py\<close>

subsection \<open>The global state\<close>

record vm_info =
  vm_name :: string
  vm_status :: string
  vm_private_ip :: string
  vm_public_ip :: string
  vm_current_flavor :: string
  vm_cpu :: jval
  vm_ram :: jval
  vm_last_update :: "string option"

record stats_info =
  alertes_recues :: int
  alertes_valides :: int
  alertes_rejetees :: int
  scalings_up :: int
  scalings_down :: int

text \<open>
  The message of a journal entry:
  \<^item> \<open>JAlerteRejetee r\<close>: alert rejected for the reason \<open>r\<close>;
  \<^item> \<open>JScale a f n cpu\<close>: scale up or down (the action \<open>a\<close>) from \<open>f\<close> to \<open>n\<close>;
  \<^item> \<open>JCooldown\<close>: cooldown active, scaling postponed;
  \<^item> \<open>JErreurScaling m\<close>: scaling error with the message of the outcome;
  \<^item> \<open>JMetriques cpu ram\<close>: metrics received, no action;
  \<^item> \<open>JTexte t\<close>: any other text.
\<close>

datatype journal_msg =
    JAlerteRejetee raison
  | JScale string string string real
  | JCooldown
  | JErreurScaling msg
  | JMetriques real real
  | JTexte string

record log_entry =
  log_time :: string
  log_type :: string
  log_message :: journal_msg

record app_state =
  vm :: vm_info
  policies :: policies
  logs :: "log_entry list"
  stats :: stats_info

text \<open>The keys of \<open>state["flavors"]\<close>, in the order the dict lists them.\<close>

definition flavors :: "string list" where
  "flavors = [''m1.small'', ''m1.medium'', ''m1.large'']"

text \<open>The check \<open>api_update_policies\<close> makes before it stores new thresholds.\<close>

definition seuils_valides :: "real \<Rightarrow> real \<Rightarrow> bool" where
  "seuils_valides scale_up scale_down = (0 < scale_down \<and> scale_down < scale_up \<and> scale_up < 100)"

text \<open>
  What the process is configured with: \<open>SECRET_TOKEN\<close>, \<open>COOLDOWN_SECONDS\<close>,
  \<open>VM_NAME\<close>, the Nova client, and \<open>time.strftime\<close> as a function of the format and
  of the time of the clock.
\<close>

record config =
  cfg_secret_token :: string
  cfg_cooldown_seconds :: int
  cfg_vm_name :: string
  cfg_nova_client :: "nova option"
  cfg_strftime :: "string \<Rightarrow> real \<Rightarrow> string"

text \<open>The state of \<open>adapter.py\<close>, the state of \<open>heat_client.py\<close> and the world.\<close>

record systeme =
  app :: app_state
  hc :: hc_state
  ext :: monde

subsection \<open>ajouter_log\<close>

text \<open>\<open>heure\<close> is what \<open>time.strftime("%H:%M")\<close> returns.\<close>

definition ajouter_log :: "string \<Rightarrow> journal_msg \<Rightarrow> string \<Rightarrow> app_state \<Rightarrow> app_state" where
  "ajouter_log heure message type_log a =
    (let l = \<lparr>log_time = heure, log_type = type_log, log_message = message\<rparr> # logs a
     in a\<lparr>logs := (if length l > 50 then take 50 l else l)\<rparr>)"

subsection \<open>recevoir_alerte\<close>

text \<open>
  The answer of the route: status 400 with the reason, or status 200 with the action
  and the flavor. \<open>Inl e\<close> in the result of \<open>recevoir_alerte\<close> is an exception that
  leaves the handler.
\<close>

datatype reponse =
    Rejet raison
  | Accepte string string

definition maj_stats :: "(stats_info \<Rightarrow> stats_info) \<Rightarrow> app_state \<Rightarrow> app_state" where
  "maj_stats f a = a\<lparr>stats := f (stats a)\<rparr>"

definition journaliser :: "config \<Rightarrow> journal_msg \<Rightarrow> string \<Rightarrow> systeme \<Rightarrow> systeme" where
  "journaliser cfg message type_log g =
     g\<lparr>app := ajouter_log (cfg_strftime cfg ''%H:%M'' (horloge (ext g))) message type_log (app g)\<rparr>"

text \<open>Step 4 of the route: the resize and what the route does with its outcome.\<close>

definition executer_scaling :: "config \<Rightarrow> string \<Rightarrow> real \<Rightarrow> systeme \<Rightarrow> systeme" where
  "executer_scaling cfg action cpu g =
    (let flavor_actuel = vm_current_flavor (vm (app g));
         nouveau_flavor = determiner_nouveau_flavor action flavor_actuel
     in case effectuer_resize (cfg_cooldown_seconds cfg) (cfg_nova_client cfg)
               (cfg_vm_name cfg) nouveau_flavor (hc g, ext g) of
          (res, s', w') \<Rightarrow>
     let g1 = g\<lparr>hc := s', ext := w'\<rparr> in
     if res_success res \<and> res_action res \<notin> {''none'', ''cooldown''} then
       (let a1 = (app g1)\<lparr>vm := (vm (app g1))\<lparr>vm_current_flavor := nouveau_flavor\<rparr>\<rparr>;
            a2 = (if action = ''scale_up''
                  then maj_stats (\<lambda>st. st\<lparr>scalings_up := scalings_up st + 1\<rparr>) a1
                  else maj_stats (\<lambda>st. st\<lparr>scalings_down := scalings_down st + 1\<rparr>) a1);
            type_log = (if action = ''scale_up'' then ''success'' else ''warning'')
        in journaliser cfg (JScale action flavor_actuel nouveau_flavor cpu) type_log
             (g1\<lparr>app := a2\<rparr>))
     else if res_action res = ''cooldown'' then
       journaliser cfg JCooldown ''info'' g1
     else
       journaliser cfg (JErreurScaling (res_message res)) ''error'' g1)"

definition recevoir_alerte :: "config \<Rightarrow> jdict \<Rightarrow> systeme \<Rightarrow> (exn + reponse) \<times> systeme" where
  "recevoir_alerte cfg data g =
    (let g1 = g\<lparr>app := maj_stats (\<lambda>st. st\<lparr>alertes_recues := alertes_recues st + 1\<rparr>) (app g)\<rparr>
     in case valider_alerte (cfg_secret_token cfg) (horloge (ext g1)) data of
          Inl e \<Rightarrow> (Inl e, g1)
        | Inr (valide, raison) \<Rightarrow>
     if \<not> valide then
       (let g2 = g1\<lparr>app := maj_stats (\<lambda>st. st\<lparr>alertes_rejetees := alertes_rejetees st + 1\<rparr>) (app g1)\<rparr>
        in (Inr (Rejet raison), journaliser cfg (JAlerteRejetee raison) ''warning'' g2))
     else
       (let g2 = g1\<lparr>app := maj_stats (\<lambda>st. st\<lparr>alertes_valides := alertes_valides st + 1\<rparr>) (app g1)\<rparr>
        in case dict_item data ''cpu'' of Inl e \<Rightarrow> (Inl e, g2) | Inr cpu \<Rightarrow>
          (case dict_item data ''ram'' of Inl e \<Rightarrow> (Inl e, g2) | Inr ram \<Rightarrow>
        let g3 = g2\<lparr>app := (app g2)\<lparr>vm := (vm (app g2))
                   \<lparr>vm_cpu := cpu, vm_ram := ram,
                    vm_last_update := Some (cfg_strftime cfg ''%H:%M:%S'' (horloge (ext g2)))\<rparr>\<rparr>\<rparr>
        in (case num_val cpu of None \<Rightarrow> (Inl TypeError, g3) | Some c \<Rightarrow>
        let action = determiner_action c (policies (app g3))
        in if action \<noteq> ''none'' then
             (let g4 = executer_scaling cfg action c g3
              in (Inr (Accepte action (vm_current_flavor (vm (app g4)))), g4))
           else
             (case num_val ram of None \<Rightarrow> (Inl TypeError, g3) | Some r \<Rightarrow>
              let g4 = journaliser cfg (JMetriques c r) ''info'' g3
              in (Inr (Accepte action (vm_current_flavor (vm (app g4)))), g4))))))"

section \<open>The order of the checks, as the specification lists it\<close>

text \<open>
  The specification describes the validation as a list of checks run in order, the first
  failure deciding the result. The definitions below follow that description: one
  function per check, and \<open>premier_echec\<close> running a list of them. They are compared
  with \<open>valider_alerte\<close> further down.
\<close>

datatype verdict = Passe | Rejette raison | Leve exn

definition verif_donnees :: "jdict \<Rightarrow> verdict" where
  "verif_donnees data = (if data = [] then Rejette DonneesVides else Passe)"

definition verif_champs :: "jdict \<Rightarrow> verdict" where
  "verif_champs data =
    (case find (\<lambda>champ. map_of data champ = None) required_fields of
       Some champ \<Rightarrow> Rejette (ChampManquant champ)
     | None \<Rightarrow> Passe)"

definition verif_token :: "string \<Rightarrow> jdict \<Rightarrow> verdict" where
  "verif_token secret data =
    (case dict_item data ''token'' of
       Inl e \<Rightarrow> Leve e
     | Inr token \<Rightarrow> if token = JStr secret then Passe else Rejette TokenInvalide)"

definition verif_cpu :: "jdict \<Rightarrow> verdict" where
  "verif_cpu data =
    (case dict_item data ''cpu'' of
       Inl e \<Rightarrow> Leve e
     | Inr v \<Rightarrow>
        (case num_val v of
           None \<Rightarrow> Rejette CpuPasNombre
         | Some c \<Rightarrow>
             if cpu_min \<le> c \<and> c \<le> cpu_max then Passe else Rejette (CpuHorsLimites c)))"

definition verif_ram :: "jdict \<Rightarrow> verdict" where
  "verif_ram data =
    (case dict_item data ''ram'' of
       Inl e \<Rightarrow> Leve e
     | Inr v \<Rightarrow>
        (case num_val v of
           None \<Rightarrow> Rejette RamPasNombre
         | Some r \<Rightarrow>
             if ram_min \<le> r \<and> r \<le> ram_max then Passe else Rejette (RamHorsLimites r)))"

definition verif_fraicheur :: "real \<Rightarrow> jdict \<Rightarrow> verdict" where
  "verif_fraicheur now data =
    (case dict_item data ''timestamp'' of
       Inl e \<Rightarrow> Leve e
     | Inr ts \<Rightarrow>
        (case age_de now ts of
           Inl e \<Rightarrow> Leve e
         | Inr age \<Rightarrow>
             if age > max_age_seconds then Rejette (TropAncienne age)
             else if age < 0 then Rejette TimestampFutur
             else Passe))"

definition verif_source :: "jdict \<Rightarrow> verdict" where
  "verif_source data =
    (case dict_item data ''source'' of
       Inl e \<Rightarrow> Leve e
     | Inr (JStr s) \<Rightarrow> if strip s = [] then Rejette SourceNonIdentifiee else Passe
     | Inr _ \<Rightarrow> Rejette SourceNonIdentifiee)"

fun premier_echec :: "(jdict \<Rightarrow> verdict) list \<Rightarrow> jdict \<Rightarrow> exn + (bool \<times> raison)" where
  "premier_echec [] data = Inr (True, OK)"
| "premier_echec (v # vs) data =
    (case v data of
       Passe \<Rightarrow> premier_echec vs data
     | Rejette r \<Rightarrow> Inr (False, r)
     | Leve e \<Rightarrow> Inl e)"

definition verifications :: "string \<Rightarrow> real \<Rightarrow> (jdict \<Rightarrow> verdict) list" where
  "verifications secret now =
     [verif_donnees, verif_champs, verif_token secret, verif_cpu, verif_ram,
      verif_fraicheur now, verif_source]"

section \<open>Thresholds of a policy\<close>

definition seuil_haut :: "policies \<Rightarrow> real" where
  "seuil_haut pol = dict_get pol ''scale_up_threshold'' 80"

definition seuil_bas :: "policies \<Rightarrow> real" where
  "seuil_bas pol = dict_get pol ''scale_down_threshold'' 20"

section \<open>Concrete inputs\<close>

text \<open>
  A provider that finds the instance and the flavors, accepts the resize request,
  reports the same status at every refresh, and accepts the confirmation.
\<close>

definition nova_exemple :: "string \<Rightarrow> nova" where
  "nova_exemple statut =
     \<lparr>servers_list = (\<lambda>_. Inr [''vm-1'']),
      flavors_list = Inr [''m1.small'', ''m1.medium'', ''m1.large''],
      servers_get = (\<lambda>_. None),
      server_resize = (\<lambda>_ _. None),
      server_status = (\<lambda>_. Inr statut),
      server_confirm_resize = (\<lambda>_. None)\<rparr>"

text \<open>The state of \<open>heat_client.py\<close> once connected, before any resize.\<close>

definition etat_exemple :: hc_state where
  "etat_exemple =
     \<lparr>last_scaling_time = 0, hc_current_flavor = ''m1.small'', vm_id = None,
      stack_name = ''heat-main-stack'', connected = True\<rparr>"

definition monde_exemple :: "real \<Rightarrow> monde" where
  "monde_exemple t = \<lparr>horloge = t, appels = [], sondages = 0\<rparr>"

text \<open>An alert with every field present, at the time 1000 of the clock.\<close>

definition alerte_exemple :: "jval \<Rightarrow> jval \<Rightarrow> jval \<Rightarrow> jdict" where
  "alerte_exemple token cpu timestamp =
     [(''source'', JStr ''heat-vm-01''), (''token'', token), (''cpu'', cpu),
      (''ram'', JFloat 40), (''timestamp'', timestamp)]"

definition politique_exemple :: policies where
  "politique_exemple = [(''scale_up_threshold'', 80), (''scale_down_threshold'', 20), (''cooldown'', 120)]"

text \<open>The process in simulation mode (no Nova client), as \<open>adapter.py\<close> starts it.\<close>

definition config_exemple :: config where
  "config_exemple =
     \<lparr>cfg_secret_token = ''heat-secret-token'', cfg_cooldown_seconds = 120,
      cfg_vm_name = ''heat-vm-01'', cfg_nova_client = None,
      cfg_strftime = (\<lambda>_ _. ''00:16'')\<rparr>"

definition systeme_exemple :: systeme where
  "systeme_exemple =
     \<lparr>app = \<lparr>vm = \<lparr>vm_name = ''heat-vm-01'', vm_status = ''ACTIVE'',
                   vm_private_ip = ''192.168.1.10'', vm_public_ip = ''10.0.0.100'',
                   vm_current_flavor = ''m1.small'', vm_cpu = JFloat 0, vm_ram = JFloat 0,
                   vm_last_update = None\<rparr>,
             policies = politique_exemple,
             logs = [],
             stats = \<lparr>alertes_recues = 0, alertes_valides = 0, alertes_rejetees = 0,
                      scalings_up = 0, scalings_down = 0\<rparr>\<rparr>,
      hc = etat_exemple\<lparr>connected := False\<rparr>,
      ext = monde_exemple 1000\<rparr>"

section \<open>The scaling decision and the progression of flavors\<close>

lemma seuils_valides_ordre:
  "seuils_valides (seuil_haut pol) (seuil_bas pol) \<Longrightarrow> seuil_bas pol \<le> seuil_haut pol"
  by (simp add: seuils_valides_def)

text \<open>
  C6. For every cpu value and every policy whose scale-down threshold is not above its
  scale-up threshold (every policy the update of the policies accepts, see
  \<open>seuils_valides\<close>), \<open>determiner_action\<close> answers \<open>scale_up\<close> exactly when the cpu is
  strictly above the scale-up threshold, \<open>scale_down\<close> exactly when it is strictly
  below the scale-down threshold, and \<open>none\<close> in every other case; a cpu equal to either
  threshold gives \<open>none\<close>.
\<close>

theorem determiner_action_seuils:
  assumes "seuil_bas pol \<le> seuil_haut pol"
  shows "(determiner_action cpu pol = ''scale_up'' \<longleftrightarrow> cpu > seuil_haut pol)
       \<and> (determiner_action cpu pol = ''scale_down'' \<longleftrightarrow> cpu < seuil_bas pol)
       \<and> (determiner_action cpu pol = ''none'' \<longleftrightarrow>
            \<not> cpu > seuil_haut pol \<and> \<not> cpu < seuil_bas pol)
       \<and> determiner_action (seuil_haut pol) pol = ''none''
       \<and> determiner_action (seuil_bas pol) pol = ''none''"
  using assms
  by (auto simp: determiner_action_def seuil_haut_def seuil_bas_def Let_def)

theorem determiner_action_seuils_witness:
  "seuil_bas politique_exemple \<le> seuil_haut politique_exemple
   \<and> determiner_action 85 politique_exemple = ''scale_up''
   \<and> determiner_action 15 politique_exemple = ''scale_down''
   \<and> determiner_action 80 politique_exemple = ''none''
   \<and> determiner_action 20 politique_exemple = ''none''"
proof -
  have h: "seuil_bas politique_exemple \<le> seuil_haut politique_exemple"
    by (simp add: seuil_bas_def seuil_haut_def dict_get_def politique_exemple_def)
  have v: "seuil_haut politique_exemple = 80" "seuil_bas politique_exemple = 20"
    by (simp_all add: seuil_bas_def seuil_haut_def dict_get_def politique_exemple_def)
  show ?thesis
    using h determiner_action_seuils[OF h, of 85] determiner_action_seuils[OF h, of 15]
      determiner_action_seuils[OF h, of 80]
    by (simp add: v)
qed

text \<open>
  C7. \<open>determiner_nouveau_flavor\<close> saturates at the ends of the catalog
  \<open>flavors\<close>: scaling up from the last flavor and scaling down from the first return
  the flavor itself. Between them a scale-up moves one position up and a scale-down one
  position down. A current flavor that is not in the catalog is returned unchanged,
  whatever the action.
\<close>

theorem determiner_nouveau_flavor_progression:
  "determiner_nouveau_flavor ''scale_up'' (last flavors) = last flavors
   \<and> determiner_nouveau_flavor ''scale_down'' (hd flavors) = hd flavors
   \<and> (\<forall>i. Suc i < length flavors \<longrightarrow>
          determiner_nouveau_flavor ''scale_up'' (flavors ! i) = flavors ! Suc i
        \<and> determiner_nouveau_flavor ''scale_down'' (flavors ! Suc i) = flavors ! i)
   \<and> (\<forall>action f. f \<notin> set flavors \<longrightarrow> determiner_nouveau_flavor action f = f)"
proof -
  have haut: "determiner_nouveau_flavor ''scale_up'' (last flavors) = last flavors"
    by (simp add: determiner_nouveau_flavor_def progression_def flavors_def dict_get_def)
  have bas: "determiner_nouveau_flavor ''scale_down'' (hd flavors) = hd flavors"
    by (simp add: determiner_nouveau_flavor_def progression_def flavors_def dict_get_def)
  have pas: "determiner_nouveau_flavor ''scale_up'' (flavors ! i) = flavors ! Suc i
        \<and> determiner_nouveau_flavor ''scale_down'' (flavors ! Suc i) = flavors ! i"
    if "Suc i < length flavors" for i
  proof -
    from that have "i = 0 \<or> i = 1" by (auto simp: flavors_def)
    then show ?thesis
      by (auto simp: determiner_nouveau_flavor_def progression_def flavors_def dict_get_def)
  qed
  have inconnu: "determiner_nouveau_flavor action f = f" if "f \<notin> set flavors" for action f
    using that
    by (auto simp: determiner_nouveau_flavor_def progression_def flavors_def dict_get_def
        split: option.splits)
  from haut bas pas inconnu show ?thesis by blast
qed

theorem determiner_nouveau_flavor_progression_witness:
  "determiner_nouveau_flavor ''scale_up'' ''m1.large'' = ''m1.large''
   \<and> determiner_nouveau_flavor ''scale_down'' ''m1.small'' = ''m1.small''
   \<and> determiner_nouveau_flavor ''scale_up'' ''m1.small'' = ''m1.medium''
   \<and> determiner_nouveau_flavor ''scale_down'' ''m1.large'' = ''m1.medium''
   \<and> determiner_nouveau_flavor ''scale_up'' ''m1.xlarge'' = ''m1.xlarge''"
proof -
  note t = determiner_nouveau_flavor_progression
  have a: "determiner_nouveau_flavor ''scale_up'' ''m1.large'' = ''m1.large''"
    and b: "determiner_nouveau_flavor ''scale_down'' ''m1.small'' = ''m1.small''"
    using t by (simp_all add: flavors_def)
  have "Suc 0 < length flavors" "Suc 1 < length flavors" by (simp_all add: flavors_def)
  with t have "determiner_nouveau_flavor ''scale_up'' (flavors ! 0) = flavors ! Suc 0"
    and "determiner_nouveau_flavor ''scale_down'' (flavors ! Suc 1) = flavors ! 1"
    by blast+
  then have c: "determiner_nouveau_flavor ''scale_up'' ''m1.small'' = ''m1.medium''"
    and d: "determiner_nouveau_flavor ''scale_down'' ''m1.large'' = ''m1.medium''"
    by (simp_all add: flavors_def)
  have "''m1.xlarge'' \<notin> set flavors" by (simp add: flavors_def)
  with t have e: "determiner_nouveau_flavor ''scale_up'' ''m1.xlarge'' = ''m1.xlarge''"
    by blast
  from a b c d e show ?thesis by simp
qed

section \<open>The cooldown gate\<close>

text \<open>
  C8. \<open>cooldown_respecte\<close> allows a resize exactly when the time elapsed since the last
  committed resize is at least \<open>COOLDOWN_SECONDS\<close>; an elapsed time of exactly
  \<open>COOLDOWN_SECONDS\<close> is allowed.
\<close>

theorem cooldown_respecte_iff:
  "cooldown_respecte cooldown now s \<longleftrightarrow> now - last_scaling_time s \<ge> real_of_int cooldown"
  by (simp add: cooldown_respecte_def Let_def not_less)

theorem cooldown_respecte_iff_witness:
  "cooldown_respecte 120 120 etat_exemple \<and> \<not> cooldown_respecte 120 119 etat_exemple"
  using cooldown_respecte_iff[of 120 120 etat_exemple]
    cooldown_respecte_iff[of 120 119 etat_exemple]
  by (simp add: etat_exemple_def)

section \<open>The journal\<close>

text \<open>
  C10. After every call of \<open>ajouter_log\<close> the journal holds at most 50 entries and
  the new entry is its first one: the journal is the new entry followed by the old
  journal, cut to 50 entries.
\<close>

theorem ajouter_log_borne:
  "length (logs (ajouter_log heure message type_log a)) \<le> 50
   \<and> logs (ajouter_log heure message type_log a) \<noteq> []
   \<and> hd (logs (ajouter_log heure message type_log a)) =
       \<lparr>log_time = heure, log_type = type_log, log_message = message\<rparr>
   \<and> logs (ajouter_log heure message type_log a) =
       take 50 (\<lparr>log_time = heure, log_type = type_log, log_message = message\<rparr> # logs a)"
  by (simp add: ajouter_log_def Let_def)

theorem ajouter_log_borne_witness:
  "length (logs (ajouter_log ''00:17'' JCooldown ''info''
      ((app systeme_exemple)\<lparr>logs := replicate 50
          \<lparr>log_time = ''00:16'', log_type = ''info'', log_message = JTexte ''demarre''\<rparr>\<rparr>))) = 50
   \<and> hd (logs (ajouter_log ''00:17'' JCooldown ''info''
      ((app systeme_exemple)\<lparr>logs := replicate 50
          \<lparr>log_time = ''00:16'', log_type = ''info'', log_message = JTexte ''demarre''\<rparr>\<rparr>))) =
       \<lparr>log_time = ''00:17'', log_type = ''info'', log_message = JCooldown\<rparr>"
  using ajouter_log_borne[of "''00:17''" JCooldown "''info''"
      "(app systeme_exemple)\<lparr>logs := replicate 50
          \<lparr>log_time = ''00:16'', log_type = ''info'', log_message = JTexte ''demarre''\<rparr>\<rparr>"]
  by simp

section \<open>The validation of alerts\<close>

lemma valider_alerte_ordre:
  "valider_alerte secret now data = premier_echec (verifications secret now) data"
  unfolding valider_alerte_def verifications_def
  by (simp add: verif_donnees_def verif_champs_def verif_token_def verif_cpu_def
      verif_ram_def verif_fraicheur_def verif_source_def
      split: option.split sum.split jval.split)

lemma valider_alerte_mauvais_token:
  assumes "\<forall>c \<in> set required_fields. map_of data c \<noteq> None"
      and "map_of data ''token'' \<noteq> Some (JStr secret)"
  shows "valider_alerte secret now data = Inr (False, TokenInvalide)"
proof -
  have "data \<noteq> []"
    using assms(1) by (auto simp: required_fields_def)
  moreover have "find (\<lambda>champ. map_of data champ = None) required_fields = None"
    using assms(1) by (simp add: find_None_iff)
  moreover obtain t where "map_of data ''token'' = Some t" "t \<noteq> JStr secret"
    using assms by (auto simp: required_fields_def)
  ultimately show ?thesis
    by (simp add: valider_alerte_def dict_item_def)
qed

lemma valider_alerte_accepte: "valider_alerte secret now data = Inr (True, r) \<Longrightarrow> r = OK"
  unfolding valider_alerte_def
  by (simp split: if_splits option.splits sum.splits jval.splits)

text \<open>
  C9. \<open>valider_alerte\<close> runs its checks in the order payload present, required fields,
  token, cpu, ram, freshness, source, and stops at the first that fails: it is the first
  failure of that list of checks. Hence an alert that carries every required field and
  a wrong token is rejected with the authentication reason, whatever its other fields
  hold. The result is a function of the secret, the time and the alert, so the same
  input gives the same reason.
\<close>

theorem valider_alerte_premier_echec:
  "valider_alerte secret now data =
     premier_echec
       [verif_donnees, verif_champs, verif_token secret, verif_cpu, verif_ram,
        verif_fraicheur now, verif_source] data
   \<and> ((\<forall>c \<in> set required_fields. map_of data c \<noteq> None)
        \<and> map_of data ''token'' \<noteq> Some (JStr secret)
      \<longrightarrow> valider_alerte secret now data = Inr (False, TokenInvalide))"
  using valider_alerte_ordre[of secret now data] valider_alerte_mauvais_token[of data secret now]
  by (simp add: verifications_def)

theorem valider_alerte_premier_echec_witness:
  "valider_alerte ''heat-secret-token'' 1000
      (alerte_exemple (JStr ''intrus'') (JFloat 150) (JStr ''hier'')) =
     Inr (False, TokenInvalide)"
proof -
  let ?a = "alerte_exemple (JStr ''intrus'') (JFloat 150) (JStr ''hier'')"
  have "(\<forall>c \<in> set required_fields. map_of ?a c \<noteq> None)
        \<and> map_of ?a ''token'' \<noteq> Some (JStr ''heat-secret-token'')"
    by (simp add: required_fields_def alerte_exemple_def)
  with valider_alerte_premier_echec[of "''heat-secret-token''" 1000 ?a]
  show ?thesis by blast
qed

text \<open>
  C2. The claim is that \<open>valider_alerte\<close> returns a pair for every dict. It does not:
  for an alert whose fields are all present and valid but whose timestamp is a string,
  step 6 subtracts the string from the time and the \<open>TypeError\<close> leaves the function.
\<close>

theorem valider_alerte_timestamp_texte:
  "valider_alerte ''heat-secret-token'' 1000
      (alerte_exemple (JStr ''heat-secret-token'') (JFloat 50) (JStr ''hier'')) =
     Inl TypeError"
  by (simp add: valider_alerte_def required_fields_def alerte_exemple_def dict_item_def
      age_de_def cpu_min_def cpu_max_def ram_min_def ram_max_def)

theorem valider_alerte_timestamp_texte_witness:
  "\<not> (\<forall>data. \<exists>b r. valider_alerte ''heat-secret-token'' 1000 data = Inr (b, r))"
  using valider_alerte_timestamp_texte by (metis Inl_Inr_False)

section \<open>The resize\<close>

text \<open>
  C4. A resize to the current flavor returns the outcome \<open>none\<close> with success, for
  every instance name, state, clock, cooldown and provider: the state and the world
  (the calls made on the provider, the clock) are what they were. The cooldown is not
  consulted: the result is the same while the cooldown is active.
\<close>

theorem effectuer_resize_meme_flavor:
  "effectuer_resize cooldown client nom (hc_current_flavor s) (s, w) =
     (\<lparr>res_success = True,
       res_message = MsgDeja (hc_current_flavor s),
       res_ancien_flavor = hc_current_flavor s,
       res_nouveau_flavor = hc_current_flavor s,
       res_action = ''none''\<rparr>, s, w)"
  by (simp add: effectuer_resize_def Let_def)

theorem effectuer_resize_meme_flavor_witness:
  "\<not> cooldown_respecte 120 10 etat_exemple
   \<and> res_action (fst (effectuer_resize 120 (Some (nova_exemple ''ACTIVE'')) ''heat-vm-01''
        ''m1.small'' (etat_exemple, monde_exemple 10))) = ''none''
   \<and> res_success (fst (effectuer_resize 120 (Some (nova_exemple ''ACTIVE'')) ''heat-vm-01''
        ''m1.small'' (etat_exemple, monde_exemple 10)))
   \<and> snd (effectuer_resize 120 (Some (nova_exemple ''ACTIVE'')) ''heat-vm-01''
        ''m1.small'' (etat_exemple, monde_exemple 10)) = (etat_exemple, monde_exemple 10)"
proof -
  have f: "hc_current_flavor etat_exemple = ''m1.small''"
    by (simp add: etat_exemple_def)
  have c: "\<not> cooldown_respecte 120 10 etat_exemple"
    by (simp add: cooldown_respecte_def etat_exemple_def)
  show ?thesis
    using c effectuer_resize_meme_flavor[of 120 "Some (nova_exemple ''ACTIVE'')"
        "''heat-vm-01''" etat_exemple "monde_exemple 10"]
    by (simp add: f)
qed

text \<open>
  C5. A resize to another flavor asked less than \<open>COOLDOWN_SECONDS\<close> after the last
  committed resize returns the outcome \<open>cooldown\<close> without success; the state (current
  flavor, time of the last resize) and the world (no call on the provider) are what
  they were.
\<close>

theorem effectuer_resize_cooldown:
  assumes "nouveau \<noteq> hc_current_flavor s"
      and "horloge w - last_scaling_time s < real_of_int cooldown"
  shows "effectuer_resize cooldown client nom nouveau (s, w) =
     (\<lparr>res_success = False,
       res_message = MsgCooldown (hc_current_flavor s) nouveau,
       res_ancien_flavor = hc_current_flavor s,
       res_nouveau_flavor = nouveau,
       res_action = ''cooldown''\<rparr>, s, w)"
  using assms by (simp add: effectuer_resize_def cooldown_respecte_def Let_def)

theorem effectuer_resize_cooldown_witness:
  "''m1.medium'' \<noteq> hc_current_flavor etat_exemple
   \<and> horloge (monde_exemple 10) - last_scaling_time etat_exemple < real_of_int 120
   \<and> effectuer_resize 120 (Some (nova_exemple ''ACTIVE'')) ''heat-vm-01'' ''m1.medium''
        (etat_exemple, monde_exemple 10) =
     (\<lparr>res_success = False,
       res_message = MsgCooldown ''m1.small'' ''m1.medium'',
       res_ancien_flavor = ''m1.small'',
       res_nouveau_flavor = ''m1.medium'',
       res_action = ''cooldown''\<rparr>, etat_exemple, monde_exemple 10)"
proof -
  have h1: "''m1.medium'' \<noteq> hc_current_flavor etat_exemple"
    by (simp add: etat_exemple_def)
  have h2: "horloge (monde_exemple 10) - last_scaling_time etat_exemple < real_of_int 120"
    by (simp add: etat_exemple_def monde_exemple_def)
  have f: "hc_current_flavor etat_exemple = ''m1.small''"
    by (simp add: etat_exemple_def)
  show ?thesis
    using h1 h2 effectuer_resize_cooldown[OF h1 h2, of "Some (nova_exemple ''ACTIVE'')" "''heat-vm-01''"]
    by (simp add: f)
qed

text \<open>
  C1. The claim is that, when the polling ends without the status \<open>VERIFY_RESIZE\<close>
  (the 120 seconds have passed, or the status is \<open>ERROR\<close>), the outcome is an error,
  the resize is not confirmed, and the flavor and the time of the last resize stay.
  The code does not read what \<open>_attendre_statut\<close> returns. With a provider whose
  instance stays in the status \<open>RESIZE\<close> the polling makes 24 refreshes and gives up at
  time 1120; with one whose instance is in the status \<open>ERROR\<close> it gives up at the
  first refresh. In both cases \<open>confirm_resize\<close> is called next, and since the provider
  accepts it the outcome is \<open>resized\<close>, with the flavor and the time of the last resize
  updated.
\<close>

theorem effectuer_resize_confirme_sans_statut:
  "effectuer_resize 120 (Some (nova_exemple ''RESIZE'')) ''heat-vm-01'' ''m1.medium''
      (etat_exemple, monde_exemple 1000) =
     (\<lparr>res_success = True,
       res_message = MsgResizeReussi ''heat-vm-01'' ''m1.small'' ''m1.medium'',
       res_ancien_flavor = ''m1.small'',
       res_nouveau_flavor = ''m1.medium'',
       res_action = ''resized''\<rparr>,
      etat_exemple\<lparr>hc_current_flavor := ''m1.medium'', last_scaling_time := 1120,
                   vm_id := Some ''vm-1''\<rparr>,
      \<lparr>horloge = 1120,
       appels = [ServersList ''heat-vm-01'', FlavorsList, ServersGet ''vm-1'',
                 ServerResize ''vm-1'' ''m1.medium'']
                @ replicate 24 (ServerGet ''vm-1'') @ [ConfirmResize ''vm-1''],
       sondages = 24\<rparr>)
   \<and> effectuer_resize 120 (Some (nova_exemple ''ERROR'')) ''heat-vm-01'' ''m1.medium''
      (etat_exemple, monde_exemple 1000) =
     (\<lparr>res_success = True,
       res_message = MsgResizeReussi ''heat-vm-01'' ''m1.small'' ''m1.medium'',
       res_ancien_flavor = ''m1.small'',
       res_nouveau_flavor = ''m1.medium'',
       res_action = ''resized''\<rparr>,
      etat_exemple\<lparr>hc_current_flavor := ''m1.medium'', last_scaling_time := 1000,
                   vm_id := Some ''vm-1''\<rparr>,
      \<lparr>horloge = 1000,
       appels = [ServersList ''heat-vm-01'', FlavorsList, ServersGet ''vm-1'',
                 ServerResize ''vm-1'' ''m1.medium'', ServerGet ''vm-1'',
                 ConfirmResize ''vm-1''],
       sondages = 1\<rparr>)"
proof -
  have lent: "attendre_statut (nova_exemple ''RESIZE'') ''vm-1'' ''VERIFY_RESIZE'' 120
        \<lparr>horloge = 1000, appels = cs, sondages = 0\<rparr> =
      (Inr False,
       \<lparr>horloge = 1120, appels = cs @ replicate 24 (ServerGet ''vm-1''), sondages = 24\<rparr>)"
    for cs
    by (simp add: attendre_statut_def attendre_boucle.simps nova_exemple_def sleep_def
        appeler_def Let_def eval_nat_numeral)
  have erreur: "attendre_statut (nova_exemple ''ERROR'') ''vm-1'' ''VERIFY_RESIZE'' 120
        \<lparr>horloge = 1000, appels = cs, sondages = 0\<rparr> =
      (Inr False, \<lparr>horloge = 1000, appels = cs @ [ServerGet ''vm-1''], sondages = 1\<rparr>)"
    for cs
    by (simp add: attendre_statut_def attendre_boucle.simps nova_exemple_def sleep_def
        appeler_def Let_def)
  have fixe: "servers_list (nova_exemple st) = (\<lambda>_. Inr [''vm-1''])"
    "flavors_list (nova_exemple st) = Inr [''m1.small'', ''m1.medium'', ''m1.large'']"
    "servers_get (nova_exemple st) = (\<lambda>_. None)"
    "server_resize (nova_exemple st) = (\<lambda>_ _. None)"
    "server_confirm_resize (nova_exemple st) = (\<lambda>_. None)" for st
    by (simp_all add: nova_exemple_def)
  have un: "effectuer_resize 120 (Some (nova_exemple ''RESIZE'')) ''heat-vm-01'' ''m1.medium''
      (etat_exemple, monde_exemple 1000) =
     (\<lparr>res_success = True,
       res_message = MsgResizeReussi ''heat-vm-01'' ''m1.small'' ''m1.medium'',
       res_ancien_flavor = ''m1.small'',
       res_nouveau_flavor = ''m1.medium'',
       res_action = ''resized''\<rparr>,
      etat_exemple\<lparr>hc_current_flavor := ''m1.medium'', last_scaling_time := 1120,
                   vm_id := Some ''vm-1''\<rparr>,
      \<lparr>horloge = 1120,
       appels = [ServersList ''heat-vm-01'', FlavorsList, ServersGet ''vm-1'',
                 ServerResize ''vm-1'' ''m1.medium'']
                @ replicate 24 (ServerGet ''vm-1'') @ [ConfirmResize ''vm-1''],
       sondages = 24\<rparr>)"
    by (simp add: effectuer_resize_def resize_openstack_def recuperer_vm_id_def
        cooldown_respecte_def lent fixe etat_exemple_def monde_exemple_def appeler_def Let_def)
  have deux: "effectuer_resize 120 (Some (nova_exemple ''ERROR'')) ''heat-vm-01'' ''m1.medium''
      (etat_exemple, monde_exemple 1000) =
     (\<lparr>res_success = True,
       res_message = MsgResizeReussi ''heat-vm-01'' ''m1.small'' ''m1.medium'',
       res_ancien_flavor = ''m1.small'',
       res_nouveau_flavor = ''m1.medium'',
       res_action = ''resized''\<rparr>,
      etat_exemple\<lparr>hc_current_flavor := ''m1.medium'', last_scaling_time := 1000,
                   vm_id := Some ''vm-1''\<rparr>,
      \<lparr>horloge = 1000,
       appels = [ServersList ''heat-vm-01'', FlavorsList, ServersGet ''vm-1'',
                 ServerResize ''vm-1'' ''m1.medium'', ServerGet ''vm-1'',
                 ConfirmResize ''vm-1''],
       sondages = 1\<rparr>)"
    by (simp add: effectuer_resize_def resize_openstack_def recuperer_vm_id_def
        cooldown_respecte_def erreur fixe etat_exemple_def monde_exemple_def appeler_def Let_def)
  from un deux show ?thesis by (rule conjI)
qed

theorem effectuer_resize_confirme_sans_statut_witness:
  "res_action (fst (effectuer_resize 120 (Some (nova_exemple ''RESIZE'')) ''heat-vm-01''
      ''m1.medium'' (etat_exemple, monde_exemple 1000))) = ''resized''
   \<and> ConfirmResize ''vm-1'' \<in> set (appels (snd (snd (effectuer_resize 120
      (Some (nova_exemple ''RESIZE'')) ''heat-vm-01'' ''m1.medium''
      (etat_exemple, monde_exemple 1000)))))
   \<and> hc_current_flavor (fst (snd (effectuer_resize 120 (Some (nova_exemple ''RESIZE''))
      ''heat-vm-01'' ''m1.medium'' (etat_exemple, monde_exemple 1000)))) \<noteq>
     hc_current_flavor etat_exemple
   \<and> last_scaling_time (fst (snd (effectuer_resize 120 (Some (nova_exemple ''RESIZE''))
      ''heat-vm-01'' ''m1.medium'' (etat_exemple, monde_exemple 1000)))) \<noteq>
     last_scaling_time etat_exemple"
  using effectuer_resize_confirme_sans_statut
  by (simp add: etat_exemple_def)

section \<open>The flavor of the instance in the state of the adapter\<close>

lemma journaliser_vm: "vm (app (journaliser cfg m t g)) = vm (app g)"
  by (simp add: journaliser_def ajouter_log_def Let_def)

lemma maj_stats_vm: "vm (maj_stats f a) = vm a"
  by (simp add: maj_stats_def)

lemma simuler_resize_action: "res_action (fst (simuler_resize nom a n sw)) = ''simulated''"
  by (cases sw) (simp add: simuler_resize_def Let_def)

lemma erreur_resize_echec:
  "res_success (erreur_resize m a n) = False" "res_action (erreur_resize m a n) = ''error''"
  by (simp_all add: erreur_resize_def)

lemma resize_openstack_action:
  "res_success (fst (resize_openstack nv nom a n sw)) \<Longrightarrow>
   res_action (fst (resize_openstack nv nom a n sw)) = ''resized''"
  unfolding resize_openstack_def Let_def
  by (auto simp: erreur_resize_echec split: prod.splits option.splits sum.splits if_splits)

lemma effectuer_resize_succes:
  "res_success (fst (effectuer_resize cd client nom n sw)) \<Longrightarrow>
   res_action (fst (effectuer_resize cd client nom n sw)) \<in> {''none'', ''resized'', ''simulated''}"
  unfolding effectuer_resize_def Let_def
  by (auto split: prod.splits option.splits if_splits
      simp: simuler_resize_action dest: resize_openstack_action)

lemma executer_scaling_flavor:
  assumes "vm_current_flavor (vm (app (executer_scaling cfg action cpu g))) \<noteq>
           vm_current_flavor (vm (app g))"
  shows "res_action (fst (effectuer_resize (cfg_cooldown_seconds cfg) (cfg_nova_client cfg)
               (cfg_vm_name cfg)
               (determiner_nouveau_flavor action (vm_current_flavor (vm (app g))))
               (hc g, ext g)))
          \<in> {''resized'', ''simulated''}
        \<and> vm_current_flavor (vm (app (executer_scaling cfg action cpu g))) =
            determiner_nouveau_flavor action (vm_current_flavor (vm (app g)))"
proof -
  let ?r = "effectuer_resize (cfg_cooldown_seconds cfg) (cfg_nova_client cfg) (cfg_vm_name cfg)
              (determiner_nouveau_flavor action (vm_current_flavor (vm (app g)))) (hc g, ext g)"
  obtain res s' w' where r: "?r = (res, s', w')"
    by (cases ?r)
  have ok: "res_success res \<and> res_action res \<notin> {''none'', ''cooldown''}"
    using assms r
    by (auto simp: executer_scaling_def Let_def journaliser_vm split: if_splits)
  then have "res_action res \<in> {''none'', ''resized'', ''simulated''}"
    using effectuer_resize_succes[of "cfg_cooldown_seconds cfg" "cfg_nova_client cfg"
        "cfg_vm_name cfg" _ "(hc g, ext g)"] r
    by (metis fst_conv)
  with ok have "res_action res \<in> {''resized'', ''simulated''}"
    by auto
  moreover have "vm_current_flavor (vm (app (executer_scaling cfg action cpu g))) =
      determiner_nouveau_flavor action (vm_current_flavor (vm (app g)))"
    using ok r by (simp add: executer_scaling_def Let_def journaliser_vm maj_stats_vm)
  ultimately show ?thesis
    using r by simp
qed

text \<open>
  C3. The flavor of the instance in the state of the adapter,
  \<open>state["vm"]["current_flavor"]\<close>, changes in \<open>recevoir_alerte\<close> only through a resize
  whose outcome is \<open>resized\<close> or \<open>simulated\<close>. If the flavor after the route differs from
  the flavor before, then the alert was valid, the decision was not \<open>none\<close>, the resize
  was asked for the next flavor and its outcome was \<open>resized\<close> or \<open>simulated\<close>, and the
  new flavor is that next flavor. So a rejected alert, a valid alert with the decision
  \<open>none\<close>, an exception, and the outcomes \<open>none\<close>, \<open>cooldown\<close> and \<open>error\<close> all leave the
  flavor as it was.
\<close>

theorem recevoir_alerte_flavor_change:
  assumes "vm_current_flavor (vm (app (snd (recevoir_alerte cfg data g)))) \<noteq>
           vm_current_flavor (vm (app g))"
  shows "\<exists>cpu c action.
           valider_alerte (cfg_secret_token cfg) (horloge (ext g)) data = Inr (True, OK)
         \<and> map_of data ''cpu'' = Some cpu \<and> num_val cpu = Some c
         \<and> action = determiner_action c (policies (app g)) \<and> action \<noteq> ''none''
         \<and> res_action (fst (effectuer_resize (cfg_cooldown_seconds cfg) (cfg_nova_client cfg)
               (cfg_vm_name cfg)
               (determiner_nouveau_flavor action (vm_current_flavor (vm (app g))))
               (hc g, ext g)))
             \<in> {''resized'', ''simulated''}
         \<and> vm_current_flavor (vm (app (snd (recevoir_alerte cfg data g)))) =
             determiner_nouveau_flavor action (vm_current_flavor (vm (app g)))"
proof -
  obtain r where "valider_alerte (cfg_secret_token cfg) (horloge (ext g)) data = Inr (True, r)"
    using assms
    by (auto simp: recevoir_alerte_def Let_def journaliser_vm maj_stats_vm
        split: sum.splits prod.splits if_splits)
  then have v: "valider_alerte (cfg_secret_token cfg) (horloge (ext g)) data = Inr (True, OK)"
    using valider_alerte_accepte by blast
  obtain cpu where cpu: "map_of data ''cpu'' = Some cpu"
    using assms v
    by (auto simp: recevoir_alerte_def Let_def dict_item_def maj_stats_vm split: option.splits)
  obtain ram where ram: "map_of data ''ram'' = Some ram"
    using assms v cpu
    by (auto simp: recevoir_alerte_def Let_def dict_item_def maj_stats_vm split: option.splits)
  obtain c where c: "num_val cpu = Some c"
    using assms v cpu ram
    by (auto simp: recevoir_alerte_def Let_def dict_item_def maj_stats_vm split: option.splits)
  define g3 where "g3 = g\<lparr>app :=
      (maj_stats (\<lambda>st. st\<lparr>alertes_valides := alertes_valides st + 1\<rparr>)
        (maj_stats (\<lambda>st. st\<lparr>alertes_recues := alertes_recues st + 1\<rparr>) (app g)))
      \<lparr>vm := (vm (app g))\<lparr>vm_cpu := cpu, vm_ram := ram,
            vm_last_update := Some (cfg_strftime cfg ''%H:%M:%S'' (horloge (ext g)))\<rparr>\<rparr>\<rparr>"
  have g3: "hc g3 = hc g" "ext g3 = ext g" "policies (app g3) = policies (app g)"
    "vm_current_flavor (vm (app g3)) = vm_current_flavor (vm (app g))"
    by (simp_all add: g3_def maj_stats_def)
  let ?a = "determiner_action c (policies (app g))"
  have a: "?a \<noteq> ''none''"
    using assms v cpu ram c
    by (auto simp: recevoir_alerte_def Let_def dict_item_def maj_stats_def journaliser_vm
        split: option.splits)
  have e: "snd (recevoir_alerte cfg data g) = executer_scaling cfg ?a c g3"
    using v cpu ram c a
    by (simp add: recevoir_alerte_def Let_def dict_item_def g3_def maj_stats_def)
  from assms e g3
  have "vm_current_flavor (vm (app (executer_scaling cfg ?a c g3))) \<noteq>
        vm_current_flavor (vm (app g3))"
    by simp
  from executer_scaling_flavor[OF this] show ?thesis
    using v cpu c a e g3 by simp
qed

theorem recevoir_alerte_flavor_change_witness:
  "vm_current_flavor (vm (app (snd (recevoir_alerte config_exemple
      (alerte_exemple (JStr ''heat-secret-token'') (JFloat 85) (JFloat 990))
      systeme_exemple)))) = ''m1.medium''
   \<and> vm_current_flavor (vm (app systeme_exemple)) = ''m1.small''
   \<and> res_action (fst (effectuer_resize 120 None ''heat-vm-01'' ''m1.medium''
        (hc systeme_exemple, ext systeme_exemple))) \<in> {''resized'', ''simulated''}"
proof -
  let ?d = "alerte_exemple (JStr ''heat-secret-token'') (JFloat 85) (JFloat 990)"
  have av: "vm_current_flavor (vm (app systeme_exemple)) = ''m1.small''"
    by (simp add: systeme_exemple_def)
  have ap: "vm_current_flavor (vm (app (snd (recevoir_alerte config_exemple ?d systeme_exemple))))
      = ''m1.medium''"
    by (simp add: recevoir_alerte_def Let_def config_exemple_def systeme_exemple_def
        monde_exemple_def etat_exemple_def valider_alerte_def required_fields_def age_de_def
        cpu_min_def cpu_max_def ram_min_def ram_max_def max_age_seconds_def strip_def
        est_espace_def dict_item_def alerte_exemple_def maj_stats_def
        determiner_action_def politique_exemple_def dict_get_def executer_scaling_def
        determiner_nouveau_flavor_def progression_def effectuer_resize_def
        cooldown_respecte_def simuler_resize_def sleep_def journaliser_def ajouter_log_def)
  have h: "vm_current_flavor (vm (app (snd (recevoir_alerte config_exemple ?d systeme_exemple))))
      \<noteq> vm_current_flavor (vm (app systeme_exemple))"
    by (simp add: ap av)
  from recevoir_alerte_flavor_change[OF h] obtain cpu c action where
    f: "map_of ?d ''cpu'' = Some cpu" "num_val cpu = Some c"
       "action = determiner_action c (policies (app systeme_exemple))"
       "res_action (fst (effectuer_resize (cfg_cooldown_seconds config_exemple)
           (cfg_nova_client config_exemple) (cfg_vm_name config_exemple)
           (determiner_nouveau_flavor action (vm_current_flavor (vm (app systeme_exemple))))
           (hc systeme_exemple, ext systeme_exemple))) \<in> {''resized'', ''simulated''}"
    by blast
  from f(1) have "cpu = JFloat 85"
    by (simp add: alerte_exemple_def)
  with f(2) have "c = 85"
    by simp
  with f(3) have "action = ''scale_up''"
    by (simp add: determiner_action_def systeme_exemple_def politique_exemple_def dict_get_def)
  with f(4) have "res_action (fst (effectuer_resize 120 None ''heat-vm-01'' ''m1.medium''
        (hc systeme_exemple, ext systeme_exemple))) \<in> {''resized'', ''simulated''}"
    by (simp add: config_exemple_def av determiner_nouveau_flavor_def progression_def
        dict_get_def)
  with ap av show ?thesis
    by simp
qed

end
